theory Spec2Isabelle
  imports Main "HOL-Library.Word"
begin

section \<open>JavaScript strings\<close>

text \<open>
  A JavaScript string is a sequence of UTF-16 code units. The literals of the source
  that are not ASCII are written as their code units; ASCII literals are written with
  \<open>ascii\<close>.
\<close>

type_synonym jsstring = "16 word list"

definition ascii :: "string \<Rightarrow> jsstring" where
  "ascii s = map of_char s"

text \<open>
  \<open>String.prototype.trim\<close> removes the code units of WhiteSpace and LineTerminator
  (ECMAScript 2015 and later) from both ends.
\<close>

definition isWhiteSpace :: "16 word \<Rightarrow> bool" where
  "isWhiteSpace c \<longleftrightarrow>
     c \<in> {0x09, 0x0A, 0x0B, 0x0C, 0x0D, 0x20, 0xA0, 0x1680, 0x2028, 0x2029,
          0x202F, 0x205F, 0x3000, 0xFEFF}
     \<or> (0x2000 \<le> c \<and> c \<le> 0x200A)"

definition trim :: "jsstring \<Rightarrow> jsstring" where
  "trim s = rev (dropWhile isWhiteSpace (rev (dropWhile isWhiteSpace s)))"

definition startsWith :: "jsstring \<Rightarrow> jsstring \<Rightarrow> bool" where
  "startsWith s p \<longleftrightarrow> take (length p) s = p"

text \<open>\<open>s.slice(n)\<close> for a non-negative \<open>n\<close>.\<close>

definition slice_js :: "jsstring \<Rightarrow> nat \<Rightarrow> jsstring" where
  "slice_js s n = drop n s"

text \<open>
  \<open>s.split('\n')\<close>: the pieces between line feeds; a string with no line feed is one
  piece, and the empty string gives one empty piece.
\<close>

fun split_lf :: "jsstring \<Rightarrow> jsstring list" where
  "split_lf [] = [[]]"
| "split_lf (c # cs) =
     (if c = 0x0A then [] # split_lf cs
      else (case split_lf cs of [] \<Rightarrow> [[c]] | l # ls \<Rightarrow> (c # l) # ls))"

text \<open>
  An HTTP status in a template literal: an integer of three digits, which prints in
  decimal. (JavaScript prints the exact decimal digits of an integer up to \<open>2^53\<close> in
  magnitude; a larger number prints as the shortest digits of its double, and in
  exponent form from \<open>10^21\<close>.)
\<close>

fun decimal :: "nat \<Rightarrow> jsstring" where
  "decimal n = (if n < 10 then [of_nat (48 + n)] else decimal (n div 10) @ [of_nat (48 + n mod 10)])"

declare decimal.simps [simp del]

definition Number_toString :: "int \<Rightarrow> jsstring" where
  "Number_toString i = (if i < 0 then 0x2D # decimal (nat (- i)) else decimal (nat i))"

section \<open>The request pipeline\<close>

subsection \<open>Data\<close>

text \<open>
  The custom fields of a request configuration are optional properties: \<open>None\<close> is a
  property that is absent (\<open>undefined\<close>). The variant under \<open>src/src\<close> has no
  \<open>enableCodeCheck\<close>; the variant under \<open>src/utils\<close> extends the configuration with it.
\<close>

record RequestConfig =
  url :: "jsstring option"
  showGlobalMessage :: "bool option"
  successCode :: "int option"

record utils_RequestConfig = RequestConfig +
  enableCodeCheck :: "bool option"

text \<open>
  The envelope of a response. Business codes and HTTP statuses are numbers that are
  integers, and \<open>===\<close> on them is equality.
\<close>

record 'd ApiResponse =
  code :: int
  message :: jsstring
  data :: 'd

record ('c, 'd) AxiosResponse =
  response_config :: 'c
  response_data :: "'d ApiResponse"

text \<open>
  What \<open>responseOnRejected\<close> reads of the error object: \<open>axios.isCancel(error)\<close>,
  \<open>error.response\<close> with its \<open>status\<close> and \<open>config?.url\<close>, whether \<open>error.request\<close>
  is set, \<open>error.config\<close>, and the \<open>message\<close> that the rejection overwrites.
\<close>

record error_response =
  status :: int
  response_url :: "jsstring option"

record 'c AxiosError =
  isCancel :: bool
  error_response :: "error_response option"
  error_request :: bool
  error_config :: "'c option"
  error_message :: jsstring

text \<open>
  The two void hooks are modelled by whether they are registered; every invocation is
  recorded, with its arguments, in the list of hook calls a run returns. The hooks are
  taken to return normally, as their type \<open>=> void\<close> says.
\<close>

record 'c RequestHandlers =
  handleRequestHeader :: "('c \<Rightarrow> 'c) option"
  handleGlobalMessage :: bool
  handleBackendError :: bool

datatype hook_call =
  HandleBackendError int jsstring
| HandleGlobalMessage jsstring

text \<open>The value a promise settles with, and the settled promise.\<close>

datatype ('c, 'd) jsval =
  Data 'd
| Envelope "'d ApiResponse"
| Error "'c AxiosError"

datatype ('c, 'd) promise =
  Resolve "('c, 'd) jsval"
| Reject "('c, 'd) jsval"

subsection \<open>String literals of the source\<close>

text \<open>
  \<^verbatim>\<open>\u8BF7\u6C42\u5931\u8D25\uFF0C\u4E1A\u52A1\u7801\uFF1A${res.code}\<close>.
  A business code is any number of the envelope, so the text that the template literal
  gives for it is the platform's conversion of a number to a string: the parameter \<open>num\<close>
  of the model. On the integers up to \<open>2^53\<close> in magnitude it is \<open>Number_toString\<close>.
\<close>

definition business_failure_message :: "(int \<Rightarrow> jsstring) \<Rightarrow> int \<Rightarrow> jsstring" where
  "business_failure_message num c =
     [0x8BF7, 0x6C42, 0x5931, 0x8D25, 0xFF0C, 0x4E1A, 0x52A1, 0x7801, 0xFF1A] @ num c"

text \<open>\<^verbatim>\<open>\u672A\u77E5\u9519\u8BEF\<close>\<close>

definition msg_unknown :: jsstring where
  "msg_unknown = [0x672A, 0x77E5, 0x9519, 0x8BEF]"

text \<open>\<^verbatim>\<open>\u8BF7\u6C42\u5DF2\u53D6\u6D88\<close>\<close>

definition msg_cancelled :: jsstring where
  "msg_cancelled = [0x8BF7, 0x6C42, 0x5DF2, 0x53D6, 0x6D88]"

text \<open>\<^verbatim>\<open>\u672A\u6388\u6743\uFF0C\u8BF7\u91CD\u65B0\u767B\u5F55\<close>\<close>

definition msg_401 :: jsstring where
  "msg_401 = [0x672A, 0x6388, 0x6743, 0xFF0C, 0x8BF7, 0x91CD, 0x65B0, 0x767B, 0x5F55]"

text \<open>\<^verbatim>\<open>\u62D2\u7EDD\u8BBF\u95EE\<close>\<close>

definition msg_403 :: jsstring where
  "msg_403 = [0x62D2, 0x7EDD, 0x8BBF, 0x95EE]"

text \<open>
  \<^verbatim>\<open>\u8BF7\u6C42\u5730\u5740\u4E0D\u5B58\u5728: ${error.response.config?.url}\<close>;
  an undefined url prints as \<open>undefined\<close>.
\<close>

definition msg_404 :: "jsstring option \<Rightarrow> jsstring" where
  "msg_404 u =
     [0x8BF7, 0x6C42, 0x5730, 0x5740, 0x4E0D, 0x5B58, 0x5728, 0x3A, 0x20]
     @ (case u of None \<Rightarrow> ascii ''undefined'' | Some s \<Rightarrow> s)"

text \<open>\<^verbatim>\<open>\u670D\u52A1\u5668\u5185\u90E8\u9519\u8BEF\<close>\<close>

definition msg_500 :: jsstring where
  "msg_500 = [0x670D, 0x52A1, 0x5668, 0x5185, 0x90E8, 0x9519, 0x8BEF]"

text \<open>\<^verbatim>\<open>HTTP\u9519\u8BEF: ${status}\<close>\<close>

definition msg_http :: "int \<Rightarrow> jsstring" where
  "msg_http s = ascii ''HTTP'' @ [0x9519, 0x8BEF, 0x3A, 0x20] @ Number_toString s"

text \<open>\<^verbatim>\<open>\u7F51\u7EDC\u9519\u8BEF\uFF0C\u65E0\u6CD5\u8FDE\u63A5\u5230\u670D\u52A1\u5668\<close>\<close>

definition msg_network :: jsstring where
  "msg_network =
     [0x7F51, 0x7EDC, 0x9519, 0x8BEF, 0xFF0C, 0x65E0, 0x6CD5, 0x8FDE, 0x63A5, 0x5230, 0x670D,
      0x52A1, 0x5668]"

subsection \<open>Interceptors\<close>

text \<open>
  \<open>requestOnFulfilled\<close>: \<open>{ ...defaultConfig, ...config }\<close>, then the header handler
  when one is registered. A property the call's configuration has wins over the default.
\<close>

definition merge_default :: "'a \<Rightarrow> 'a option \<Rightarrow> 'a option" where
  "merge_default d v = (case v of None \<Rightarrow> Some d | Some x \<Rightarrow> Some x)"

definition src_requestOnFulfilled ::
  "RequestConfig RequestHandlers \<Rightarrow> RequestConfig \<Rightarrow> RequestConfig" where
  "src_requestOnFulfilled h config =
     (let config = config\<lparr>showGlobalMessage := merge_default True (showGlobalMessage config),
                          successCode := merge_default 10000 (successCode config)\<rparr>
      in case handleRequestHeader h of Some f \<Rightarrow> f config | None \<Rightarrow> config)"

definition utils_requestOnFulfilled ::
  "utils_RequestConfig RequestHandlers \<Rightarrow> utils_RequestConfig \<Rightarrow> utils_RequestConfig" where
  "utils_requestOnFulfilled h config =
     (let config = config\<lparr>showGlobalMessage := merge_default True (showGlobalMessage config),
                          successCode := merge_default 10000 (successCode config),
                          enableCodeCheck := merge_default True (enableCodeCheck config)\<rparr>
      in case handleRequestHeader h of Some f \<Rightarrow> f config | None \<Rightarrow> config)"

text \<open>
  The business-failure branch, the same text in both variants:
  \<open>res.message || fallback\<close> takes the fallback for the empty message. \<open>num\<close> is the
  platform's conversion of a number to a string.
\<close>

definition business_failure ::
  "(int \<Rightarrow> jsstring) \<Rightarrow> 'c RequestHandlers \<Rightarrow> bool option \<Rightarrow> 'd ApiResponse
     \<Rightarrow> ('c, 'd) promise \<times> hook_call list" where
  "business_failure num h show res =
     (let errorMessage = (if message res \<noteq> [] then message res
                          else business_failure_message num (code res))
      in (Reject (Envelope res),
          if handleBackendError h then [HandleBackendError (code res) (message res)]
          else if show = Some True then
            (if handleGlobalMessage h then [HandleGlobalMessage errorMessage] else [])
          else []))"

definition src_responseOnFulfilled ::
  "(int \<Rightarrow> jsstring) \<Rightarrow> RequestConfig RequestHandlers \<Rightarrow> (RequestConfig, 'd) AxiosResponse
     \<Rightarrow> (RequestConfig, 'd) promise \<times> hook_call list" where
  "src_responseOnFulfilled num h response =
     (let config = response_config response;
          res = response_data response;
          isSuccess = (successCode config = Some (code res))
      in if \<not> isSuccess then business_failure num h (showGlobalMessage config) res
         else (Resolve (Data (data res)), []))"

definition utils_responseOnFulfilled ::
  "(int \<Rightarrow> jsstring) \<Rightarrow> utils_RequestConfig RequestHandlers
     \<Rightarrow> (utils_RequestConfig, 'd) AxiosResponse
     \<Rightarrow> (utils_RequestConfig, 'd) promise \<times> hook_call list" where
  "utils_responseOnFulfilled num h response =
     (let config = response_config response;
          res = response_data response;
          isSuccess = (if enableCodeCheck config = Some True
                       then successCode config = Some (code res) else True)
      in if \<not> isSuccess then business_failure num h (showGlobalMessage config) res
         else (Resolve (Envelope res), []))"

text \<open>\<open>responseOnRejected\<close>, the same text in both variants.\<close>

definition resolve_message :: "'c AxiosError \<Rightarrow> jsstring" where
  "resolve_message error =
     (if isCancel error then msg_cancelled
      else case error_response error of
        Some r \<Rightarrow>
          (if status r = 401 then msg_401
           else if status r = 403 then msg_403
           else if status r = 404 then msg_404 (response_url r)
           else if status r = 500 then msg_500
           else msg_http (status r))
      | None \<Rightarrow> if error_request error then msg_network else msg_unknown)"

definition responseOnRejected ::
  "('a RequestConfig_scheme) RequestHandlers \<Rightarrow> ('a RequestConfig_scheme) AxiosError
     \<Rightarrow> ('a RequestConfig_scheme, 'd) promise \<times> hook_call list" where
  "responseOnRejected h error =
     (let errorMessage = resolve_message error
      in (Reject (Error (error\<lparr>error_message := errorMessage\<rparr>)),
          if (case error_config error of None \<Rightarrow> False
              | Some config \<Rightarrow> showGlobalMessage config = Some True)
          then (if handleGlobalMessage h then [HandleGlobalMessage errorMessage] else [])
          else []))"

text \<open>
  \<open>request\<close> hands the configuration to the axios instance, which runs the request
  interceptor, the transport (\<open>adapter\<close>: the envelope of a 2xx response, or the error
  of a failure), and the response interceptor of the outcome; the response carries the
  configuration that the request interceptor returned. \<open>config\<close> is the configuration
  of the call over the \<open>axiosConfig\<close> of the instance, as axios merges them. No custom
  interceptor is installed, so \<open>setupInterceptors\<close> has bound the four defaults.
\<close>

definition src_request ::
  "(int \<Rightarrow> jsstring) \<Rightarrow> RequestConfig RequestHandlers
     \<Rightarrow> (RequestConfig \<Rightarrow> RequestConfig AxiosError + 'd ApiResponse)
     \<Rightarrow> RequestConfig \<Rightarrow> (RequestConfig, 'd) promise \<times> hook_call list" where
  "src_request num h adapter config =
     (let config = src_requestOnFulfilled h config
      in case adapter config of
           Inl error \<Rightarrow> responseOnRejected h error
         | Inr res \<Rightarrow>
             src_responseOnFulfilled num h
               \<lparr>response_config = config, response_data = res\<rparr>)"

definition utils_request ::
  "(int \<Rightarrow> jsstring) \<Rightarrow> utils_RequestConfig RequestHandlers
     \<Rightarrow> (utils_RequestConfig \<Rightarrow> utils_RequestConfig AxiosError + 'd ApiResponse)
     \<Rightarrow> utils_RequestConfig \<Rightarrow> (utils_RequestConfig, 'd) promise \<times> hook_call list" where
  "utils_request num h adapter config =
     (let config = utils_requestOnFulfilled h config
      in case adapter config of
           Inl error \<Rightarrow> responseOnRejected h error
         | Inr res \<Rightarrow>
             utils_responseOnFulfilled num h
               \<lparr>response_config = config, response_data = res\<rparr>)"

section \<open>The stream consumer\<close>

subsection \<open>Platform and data\<close>

text \<open>
  \<open>JSON.parse\<close>, truthiness and string conversion belong to the JavaScript platform and
  are parameters of the model, over a type \<open>'v\<close> of JavaScript values. \<open>JSON_parse\<close>
  gives \<open>None\<close> where \<open>JSON.parse\<close> throws, and \<open>ToString\<close> gives \<open>None\<close> where the
  conversion of a value to a string throws (an object whose \<open>toString\<close> property is not
  a function, as in the parsed \<^verbatim>\<open>{"toString":1}\<close>).
\<close>

record 'v platform =
  JSON_parse :: "jsstring \<Rightarrow> 'v option"
  ToBoolean :: "'v \<Rightarrow> bool"
  ToString :: "'v \<Rightarrow> jsstring option"

text \<open>
  What is appended and handed to \<open>onMessage\<close>: a string (a line, a payload, or the
  result of \<open>extractContent\<close>, whose declared type is \<open>string\<close>), or the parsed value.
\<close>

datatype 'v content =
  Text jsstring
| Value 'v

fun truthy :: "'v platform \<Rightarrow> 'v content \<Rightarrow> bool" where
  "truthy P (Text s) = (s \<noteq> [])"
| "truthy P (Value v) = ToBoolean P v"

fun string_of :: "'v platform \<Rightarrow> 'v content \<Rightarrow> jsstring option" where
  "string_of P (Text s) = Some s"
| "string_of P (Value v) = ToString P v"

text \<open>
  What is thrown: \<open>new Error(message)\<close> of the source, the \<open>TypeError\<close> of a \<open>fetch\<close> or
  a read that fails on the network, and the \<open>AbortError\<close> of an aborted signal.
\<close>

datatype exn =
  NewError jsstring
| TypeError
| AbortError

datatype Method = GET | POST | PUT | DELETE

text \<open>
  The signal of the controller that the call creates, or a signal of the caller's.
\<close>

datatype AbortSignal =
  ControllerSignal
| CallerSignal nat

text \<open>
  \<open>extractContent\<close> gives \<open>None\<close> where it throws. The headers and the body of the
  options only flow into the \<open>fetch\<close> call and are left out.
\<close>

record 'v StreamRequestOptions =
  stream_url :: jsstring
  stream_method :: "Method option"
  baseURL :: "jsstring option"
  signal :: "nat option"
  extractContent :: "('v \<Rightarrow> jsstring option) option"

text \<open>
  A callback is modelled by whether it was supplied; every invocation is recorded, with
  its arguments, in the trace of the run. Callbacks are taken to return normally.
\<close>

record StreamCallbacks =
  onMessage :: bool
  onError :: bool
  onComplete :: bool
  onStart :: bool

datatype 'v event =
  OnStart
| Fetch jsstring Method AbortSignal
| ReaderRead
| OnMessage "'v content" jsstring
| is_OnComplete: OnComplete jsstring
| is_OnError: OnError exn

record 'v stream_state =
  fullText :: jsstring
  trace :: "'v event list"

text \<open>
  One \<open>reader.read()\<close>: the text that \<open>decoder.decode(value, { stream: true })\<close> gives
  for the bytes read, the end of the body, or a rejection (a network failure, or the
  abort of the request's signal). The body is the sequence of what its reads give.
\<close>

datatype read_result =
  ReadValue jsstring
| ReadDone
| ReadRejects exn

record Response =
  response_ok :: bool
  response_status :: int
  response_body :: "(nat \<Rightarrow> read_result) option"

datatype fetch_result =
  FetchRejects exn
| FetchResolves Response

text \<open>
  The resolved value \<open>{ fullText, abort }\<close>; \<open>abort\<close> holds the signal that calling the
  handle aborts.
\<close>

datatype StreamResponse =
  StreamResponse (response_fullText: jsstring) (abort: AbortSignal)

datatype stream_outcome =
  Resolved StreamResponse
| Rejected exn

subsection \<open>The loop over the lines of a chunk\<close>

text \<open>\<open>callback?.(args)\<close>\<close>

definition emit :: "bool \<Rightarrow> 'v event \<Rightarrow> 'v stream_state \<Rightarrow> 'v stream_state" where
  "emit supplied e st = (if supplied then st\<lparr>trace := trace st @ [e]\<rparr> else st)"

text \<open>
  \<open>fullText += content; onMessage?.(content, fullText)\<close>, where \<open>s\<close> is the string that
  the concatenation converts \<open>content\<close> to.
\<close>

definition append_content ::
  "StreamCallbacks \<Rightarrow> 'v content \<Rightarrow> jsstring \<Rightarrow> 'v stream_state \<Rightarrow> 'v stream_state" where
  "append_content cb content s st =
     (let st = st\<lparr>fullText := fullText st @ s\<rparr>
      in emit (onMessage cb) (OnMessage content (fullText st)) st)"

text \<open>
  The \<open>try\<close> block of a data line and its \<open>catch\<close>, on the payload (\<open>data\<close> in
  the source). \<open>JSON.parse\<close>, \<open>extractContent\<close> and the conversion of the content to a
  string in \<open>fullText += content\<close> may throw, all before \<open>fullText\<close> is assigned and
  before \<open>onMessage\<close> is called; the \<open>catch\<close> then appends the payload.
\<close>

definition try_json ::
  "'v platform \<Rightarrow> ('v \<Rightarrow> jsstring option) option \<Rightarrow> StreamCallbacks \<Rightarrow> jsstring
     \<Rightarrow> 'v stream_state \<Rightarrow> 'v stream_state" where
  "try_json P extr cb payload st =
     (case JSON_parse P payload of
        None \<Rightarrow> append_content cb (Text payload) payload st
      | Some parsed \<Rightarrow>
          (case (case extr of
                   None \<Rightarrow> Some (Value parsed)
                 | Some f \<Rightarrow>
                     (case f parsed of
                        None \<Rightarrow> None
                      | Some s \<Rightarrow> Some (if truthy P (Text s) then Text s else Value parsed))) of
             None \<Rightarrow> append_content cb (Text payload) payload st
           | Some content \<Rightarrow>
               if truthy P content then
                 (case string_of P content of
                    None \<Rightarrow> append_content cb (Text payload) payload st
                  | Some s \<Rightarrow> append_content cb content s st)
               else st))"

text \<open>
  The \<open>for\<close> loop either runs to the end of the lines or returns from \<open>stream\<close> at the
  \<open>[DONE]\<close> sentinel.
\<close>

datatype 'a flow =
  Continue 'a
| Return 'a

fun for_lines ::
  "'v platform \<Rightarrow> ('v \<Rightarrow> jsstring option) option \<Rightarrow> StreamCallbacks \<Rightarrow> jsstring list
     \<Rightarrow> 'v stream_state \<Rightarrow> 'v stream_state flow" where
  "for_lines P extr cb [] st = Continue st"
| "for_lines P extr cb (line # lines) st =
     (if trim line = [] then for_lines P extr cb lines st
      else if startsWith line (ascii ''data: '') then
        (let payload = trim (slice_js line 6)
         in if payload = ascii ''[DONE]''
            then Return (emit (onComplete cb) (OnComplete (fullText st)) st)
            else for_lines P extr cb lines (try_json P extr cb payload st))
      else for_lines P extr cb lines (append_content cb (Text line) line st))"

subsection \<open>The read loop and \<open>stream\<close>\<close>

text \<open>
  \<open>while (true)\<close> over the reads of the body, from read \<open>n\<close> on. The loop ends by
  \<open>break\<close> when the body is exhausted, by the \<open>return\<close> at the sentinel, or by the
  rejection of a read; on a body that keeps delivering chunks it does not end, and the
  result is \<open>None\<close>.
\<close>

datatype loop_exit =
  Broke
| Returned
| Threw exn

partial_function (option) read_loop ::
  "'v platform \<Rightarrow> ('v \<Rightarrow> jsstring option) option \<Rightarrow> StreamCallbacks \<Rightarrow> (nat \<Rightarrow> read_result)
     \<Rightarrow> nat \<Rightarrow> 'v stream_state \<Rightarrow> (loop_exit \<times> 'v stream_state) option" where
  "read_loop P extr cb reader n st =
     (case reader n of
        ReadRejects e \<Rightarrow> Some (Threw e, st\<lparr>trace := trace st @ [ReaderRead]\<rparr>)
      | ReadDone \<Rightarrow> Some (Broke, st\<lparr>trace := trace st @ [ReaderRead]\<rparr>)
      | ReadValue chunk \<Rightarrow>
          (case for_lines P extr cb (split_lf chunk) (st\<lparr>trace := trace st @ [ReaderRead]\<rparr>) of
             Return st' \<Rightarrow> Some (Returned, st')
           | Continue st' \<Rightarrow> read_loop P extr cb reader (Suc n) st'))"

text \<open>The \<open>catch\<close> of \<open>stream\<close>: \<open>onError?.(err); throw err\<close>.\<close>

definition catch ::
  "StreamCallbacks \<Rightarrow> exn \<Rightarrow> 'v stream_state \<Rightarrow> stream_outcome \<times> 'v event list" where
  "catch cb err st = (Rejected err, trace (emit (onError cb) (OnError err) st))"

text \<open>
  \<open>stream\<close> of a client whose base URL is \<open>this_baseURL\<close>. \<open>fetch\<close> is the platform's:
  it is given the URL, the method and the signal, and resolves with a response or
  rejects. The result is \<open>None\<close> when the call never settles.
\<close>

definition requestSignal :: "'v StreamRequestOptions \<Rightarrow> AbortSignal" where
  "requestSignal options =
     (case signal options of Some s \<Rightarrow> CallerSignal s | None \<Rightarrow> ControllerSignal)"

definition request_url :: "jsstring \<Rightarrow> 'v StreamRequestOptions \<Rightarrow> jsstring" where
  "request_url this_baseURL options =
     (case baseURL options of Some b \<Rightarrow> b | None \<Rightarrow> this_baseURL) @ stream_url options"

definition request_method :: "'v StreamRequestOptions \<Rightarrow> Method" where
  "request_method options = (case stream_method options of Some m \<Rightarrow> m | None \<Rightarrow> POST)"

text \<open>The state when \<open>fetch\<close> has been called: \<open>fullText = ''\<close>, after \<open>onStart?.()\<close>.\<close>

definition started ::
  "jsstring \<Rightarrow> 'v StreamRequestOptions \<Rightarrow> StreamCallbacks \<Rightarrow> 'v stream_state" where
  "started this_baseURL options cb =
     (let st = emit (onStart cb) OnStart \<lparr>fullText = [], trace = []\<rparr>
      in st\<lparr>trace := trace st @ [Fetch (request_url this_baseURL options)
                                      (request_method options) (requestSignal options)]\<rparr>)"

definition stream ::
  "'v platform \<Rightarrow> jsstring \<Rightarrow> (jsstring \<Rightarrow> Method \<Rightarrow> AbortSignal \<Rightarrow> fetch_result)
     \<Rightarrow> 'v StreamRequestOptions \<Rightarrow> StreamCallbacks
     \<Rightarrow> (stream_outcome \<times> 'v event list) option" where
  "stream P this_baseURL fetch options cb =
     (let st = started this_baseURL options cb
      in case fetch (request_url this_baseURL options) (request_method options)
                (requestSignal options) of
           FetchRejects err \<Rightarrow> Some (catch cb err st)
         | FetchResolves response \<Rightarrow>
             if \<not> response_ok response then
               Some (catch cb (NewError (ascii ''HTTP error! status: ''
                                          @ Number_toString (response_status response))) st)
             else
               (case response_body response of
                  None \<Rightarrow> Some (catch cb (NewError (ascii ''Response body is not readable'')) st)
                | Some reader \<Rightarrow>
                    (case read_loop P (extractContent options) cb reader 0 st of
                       None \<Rightarrow> None
                     | Some (Threw err, st') \<Rightarrow> Some (catch cb err st')
                     | Some (Returned, st') \<Rightarrow>
                         Some (Resolved (StreamResponse (fullText st') ControllerSignal),
                               trace st')
                     | Some (Broke, st') \<Rightarrow>
                         (let st'' = emit (onComplete cb) (OnComplete (fullText st')) st'
                          in Some (Resolved (StreamResponse (fullText st'') ControllerSignal),
                                   trace st'')))))"

subsection \<open>Descriptions of runs\<close>

text \<open>
  The reads of a finite run of chunks, as the loop performs them: a chunk is split on its
  own, and the loop goes on to the next chunk unless a line returned.
\<close>

fun for_chunks ::
  "'v platform \<Rightarrow> ('v \<Rightarrow> jsstring option) option \<Rightarrow> StreamCallbacks \<Rightarrow> jsstring list
     \<Rightarrow> 'v stream_state \<Rightarrow> 'v stream_state flow" where
  "for_chunks P extr cb [] st = Continue st"
| "for_chunks P extr cb (chunk # chunks) st =
     (case for_lines P extr cb (split_lf chunk) (st\<lparr>trace := trace st @ [ReaderRead]\<rparr>) of
        Return st' \<Rightarrow> Return st'
      | Continue st' \<Rightarrow> for_chunks P extr cb chunks st')"

text \<open>
  The call rejects with \<open>err\<close>, \<open>onError\<close> was invoked once, with \<open>err\<close> (when it was
  supplied), and \<open>onComplete\<close> was not invoked.
\<close>

definition rejected_once ::
  "StreamCallbacks \<Rightarrow> exn \<Rightarrow> (stream_outcome \<times> 'v event list) option \<Rightarrow> bool" where
  "rejected_once cb err run =
     (case run of
        None \<Rightarrow> False
      | Some (outcome, tr) \<Rightarrow>
          outcome = Rejected err
          \<and> filter is_OnError tr = (if onError cb then [OnError err] else [])
          \<and> filter is_OnComplete tr = [])"

text \<open>Events that are neither a read nor a call of \<open>onError\<close> or \<open>onComplete\<close>.\<close>

definition quiet :: "'v event \<Rightarrow> bool" where
  "quiet e \<longleftrightarrow> e \<noteq> ReaderRead \<and> \<not> is_OnError e \<and> \<not> is_OnComplete e"

subsection \<open>A platform for the examples\<close>

text \<open>
  JSON values whose numbers are integers up to \<open>2^53\<close> in magnitude, with the truthiness
  and the string conversion of JavaScript: the conversion of a parsed object throws when
  the object has a property \<open>toString\<close> (its value is never a function), and gives
  \<open>[object Object]\<close> otherwise. \<open>example_parse\<close> is \<open>JSON.parse\<close> on the texts the examples
  parse: \<^verbatim>\<open>{"v":1}\<close>, \<^verbatim>\<open>{"toString":1}\<close> and \<^verbatim>\<open>0\<close>, and the empty text and \<^verbatim>\<open>hi\<close>, on
  which \<open>JSON.parse\<close> throws.
\<close>

datatype json =
  JNull
| JBool bool
| JNumber int
| JString jsstring
| JObject "(jsstring \<times> json) list"

fun json_ToBoolean :: "json \<Rightarrow> bool" where
  "json_ToBoolean JNull = False"
| "json_ToBoolean (JBool b) = b"
| "json_ToBoolean (JNumber n) = (n \<noteq> 0)"
| "json_ToBoolean (JString s) = (s \<noteq> [])"
| "json_ToBoolean (JObject kvs) = True"

fun json_ToString :: "json \<Rightarrow> jsstring option" where
  "json_ToString JNull = Some (ascii ''null'')"
| "json_ToString (JBool b) = Some (if b then ascii ''true'' else ascii ''false'')"
| "json_ToString (JNumber n) = Some (Number_toString n)"
| "json_ToString (JString s) = Some s"
| "json_ToString (JObject kvs) =
     (if ascii ''toString'' \<in> fst ` set kvs then None else Some (ascii ''[object Object]''))"

definition example_parse :: "jsstring \<Rightarrow> json option" where
  "example_parse s =
     (if s = ascii ''{\"v\":1}'' then Some (JObject [(ascii ''v'', JNumber 1)])
      else if s = ascii ''{\"toString\":1}'' then Some (JObject [(ascii ''toString'', JNumber 1)])
      else if s = ascii ''0'' then Some (JNumber 0)
      else None)"

definition example_platform :: "json platform" where
  "example_platform =
     \<lparr>JSON_parse = example_parse, ToBoolean = json_ToBoolean, ToString = json_ToString\<rparr>"

text \<open>
  \<open>r => String(r.v)\<close>: reading a property of \<open>null\<close> throws, a missing property is
  \<open>undefined\<close>.
\<close>

fun example_extract :: "json \<Rightarrow> jsstring option" where
  "example_extract JNull = None"
| "example_extract (JObject kvs) =
     (case map_of kvs (ascii ''v'') of
        None \<Rightarrow> Some (ascii ''undefined'')
      | Some v \<Rightarrow> json_ToString v)"
| "example_extract _ = Some (ascii ''undefined'')"

section \<open>Properties of the request pipeline\<close>

text \<open>
  Claim C1, as the code has it. A successful HTTP response whose business code differs
  from the success code of the effective configuration (in the \<open>utils\<close> variant: with
  the code check enabled) makes \<open>request\<close> reject with the envelope, and at most one
  hook is called: \<open>handleBackendError(code, message)\<close> when it is registered; otherwise
  \<open>handleGlobalMessage\<close>, with the message or, for an empty message, the fallback text
  (the literal of the source followed by the text \<open>num\<close> of the code, whatever conversion
  of numbers to strings \<open>num\<close> the platform has), when \<open>showGlobalMessage\<close> is true and
  that hook is registered; otherwise none.
\<close>

theorem C1_business_failure:
  "(adapter_s (src_requestOnFulfilled hs cs) = Inr res
      \<and> successCode (src_requestOnFulfilled hs cs) \<noteq> Some (code res)
    \<longrightarrow> src_request num hs adapter_s cs =
          (Reject (Envelope res),
           if handleBackendError hs then [HandleBackendError (code res) (message res)]
           else if showGlobalMessage (src_requestOnFulfilled hs cs) = Some True
                   \<and> handleGlobalMessage hs
           then [HandleGlobalMessage (if message res \<noteq> [] then message res
                                      else business_failure_message num (code res))]
           else [])
        \<and> length (snd (src_request num hs adapter_s cs)) \<le> 1)
   \<and> (adapter_u (utils_requestOnFulfilled hu cu) = Inr res'
      \<and> enableCodeCheck (utils_requestOnFulfilled hu cu) = Some True
      \<and> successCode (utils_requestOnFulfilled hu cu) \<noteq> Some (code res')
    \<longrightarrow> utils_request num hu adapter_u cu =
          (Reject (Envelope res'),
           if handleBackendError hu then [HandleBackendError (code res') (message res')]
           else if showGlobalMessage (utils_requestOnFulfilled hu cu) = Some True
                   \<and> handleGlobalMessage hu
           then [HandleGlobalMessage (if message res' \<noteq> [] then message res'
                                      else business_failure_message num (code res'))]
           else [])
        \<and> length (snd (utils_request num hu adapter_u cu)) \<le> 1)"
  by (simp add: src_request_def utils_request_def src_responseOnFulfilled_def
      utils_responseOnFulfilled_def business_failure_def Let_def)

text \<open>
  The theorem at a response with code 1 and an empty message, under the default
  configuration: with only \<open>handleGlobalMessage\<close> registered it is called with the
  fallback text, which ends in the digit \<open>1\<close>, and with both hooks registered only
  \<open>handleBackendError\<close> is called.
\<close>

theorem C1_business_failure_witness:
  "src_request Number_toString
     \<lparr>handleRequestHeader = None, handleGlobalMessage = True, handleBackendError = False\<rparr>
     (\<lambda>c. Inr \<lparr>code = 1, message = [], data = ()\<rparr>)
     \<lparr>url = None, showGlobalMessage = None, successCode = None\<rparr>
   = (Reject (Envelope \<lparr>code = 1, message = [], data = ()\<rparr>),
      [HandleGlobalMessage (business_failure_message Number_toString 1)])
   \<and> utils_request Number_toString
     \<lparr>handleRequestHeader = None, handleGlobalMessage = True, handleBackendError = True\<rparr>
     (\<lambda>c. Inr \<lparr>code = 1, message = [], data = ()\<rparr>)
     \<lparr>url = None, showGlobalMessage = None, successCode = None, enableCodeCheck = None\<rparr>
   = (Reject (Envelope \<lparr>code = 1, message = [], data = ()\<rparr>),
      [HandleBackendError 1 []])
   \<and> business_failure_message Number_toString 1
     = [0x8BF7, 0x6C42, 0x5931, 0x8D25, 0xFF0C, 0x4E1A, 0x52A1, 0x7801, 0xFF1A, 0x31]"
  using C1_business_failure
    [where num = Number_toString and hs = "\<lparr>handleRequestHeader = None, handleGlobalMessage = True,
                   handleBackendError = False\<rparr>"
       and adapter_s = "\<lambda>c. Inr \<lparr>code = 1, message = [], data = ()\<rparr>"
       and cs = "\<lparr>url = None, showGlobalMessage = None, successCode = None\<rparr>"
       and res = "\<lparr>code = 1, message = [], data = ()\<rparr>"
       and hu = "\<lparr>handleRequestHeader = None, handleGlobalMessage = True,
                   handleBackendError = True\<rparr>"
       and adapter_u = "\<lambda>c. Inr \<lparr>code = 1, message = [], data = ()\<rparr>"
       and cu = "\<lparr>url = None, showGlobalMessage = None, successCode = None,
                   enableCodeCheck = None\<rparr>"
       and res' = "\<lparr>code = 1, message = [], data = ()\<rparr>"]
  by (simp add: src_requestOnFulfilled_def utils_requestOnFulfilled_def merge_default_def
      business_failure_message_def Number_toString_def decimal.simps)

text \<open>
  Claim C1 as it is stated fails: with \<open>showGlobalMessage: false\<close> in the call's
  configuration and no \<open>handleBackendError\<close> registered, a response with code 1 (the
  success code is the default 10000) rejects with the envelope and no hook is called.
\<close>

theorem C1_counterexample:
  "src_request Number_toString
     \<lparr>handleRequestHeader = None, handleGlobalMessage = True, handleBackendError = False\<rparr>
     (\<lambda>c. Inr \<lparr>code = 1, message = ascii ''no'', data = ()\<rparr>)
     \<lparr>url = None, showGlobalMessage = Some False, successCode = None\<rparr>
   = (Reject (Envelope \<lparr>code = 1, message = ascii ''no'', data = ()\<rparr>), [])"
  by (simp add: src_request_def src_requestOnFulfilled_def src_responseOnFulfilled_def
      business_failure_def merge_default_def Let_def)

text \<open>
  Claim C6. A successful HTTP response whose business code equals the success code of
  the effective configuration (in the \<open>utils\<close> variant: with the code check enabled, or
  any code with the code check not enabled) makes \<open>request\<close> resolve, with the \<open>data\<close>
  of the envelope in the \<open>src\<close> variant and with the envelope in the \<open>utils\<close> variant,
  and no hook is called.
\<close>

theorem C6_business_success:
  "(adapter_s (src_requestOnFulfilled hs cs) = Inr res
      \<and> successCode (src_requestOnFulfilled hs cs) = Some (code res)
    \<longrightarrow> src_request num hs adapter_s cs = (Resolve (Data (data res)), []))
   \<and> (adapter_u (utils_requestOnFulfilled hu cu) = Inr res'
      \<and> (enableCodeCheck (utils_requestOnFulfilled hu cu) = Some True
            \<and> successCode (utils_requestOnFulfilled hu cu) = Some (code res')
          \<or> enableCodeCheck (utils_requestOnFulfilled hu cu) \<noteq> Some True)
    \<longrightarrow> utils_request num hu adapter_u cu = (Resolve (Envelope res'), []))"
  by (auto simp add: src_request_def utils_request_def src_responseOnFulfilled_def
      utils_responseOnFulfilled_def Let_def)

text \<open>
  The theorem with both hooks registered: code 10000 under the default configuration in
  the \<open>src\<close> variant; in the \<open>utils\<close> variant, code 7 with \<open>enableCodeCheck: false\<close>,
  and code 200 with \<open>successCode: 200\<close> and the code check enabled by default.
\<close>

theorem C6_business_success_witness:
  "src_request Number_toString
     \<lparr>handleRequestHeader = None, handleGlobalMessage = True, handleBackendError = True\<rparr>
     (\<lambda>c. Inr \<lparr>code = 10000, message = ascii ''ok'', data = ascii ''x''\<rparr>)
     \<lparr>url = None, showGlobalMessage = None, successCode = None\<rparr>
   = (Resolve (Data (ascii ''x'')), [])
   \<and> utils_request Number_toString
     \<lparr>handleRequestHeader = None, handleGlobalMessage = True, handleBackendError = True\<rparr>
     (\<lambda>c. Inr \<lparr>code = 7, message = ascii ''ok'', data = ascii ''x''\<rparr>)
     \<lparr>url = None, showGlobalMessage = None, successCode = None,
        enableCodeCheck = Some False\<rparr>
   = (Resolve (Envelope \<lparr>code = 7, message = ascii ''ok'', data = ascii ''x''\<rparr>), [])
   \<and> utils_request Number_toString
     \<lparr>handleRequestHeader = None, handleGlobalMessage = True, handleBackendError = True\<rparr>
     (\<lambda>c. Inr \<lparr>code = 200, message = ascii ''ok'', data = ascii ''x''\<rparr>)
     \<lparr>url = None, showGlobalMessage = None, successCode = Some 200,
        enableCodeCheck = None\<rparr>
   = (Resolve (Envelope \<lparr>code = 200, message = ascii ''ok'', data = ascii ''x''\<rparr>), [])"
  using
    C6_business_success
      [where num = Number_toString and hs = "\<lparr>handleRequestHeader = None, handleGlobalMessage = True,
                     handleBackendError = True\<rparr>"
         and adapter_s = "\<lambda>c. Inr \<lparr>code = 10000, message = ascii ''ok'', data = ascii ''x''\<rparr>"
         and cs = "\<lparr>url = None, showGlobalMessage = None, successCode = None\<rparr>"
         and res = "\<lparr>code = 10000, message = ascii ''ok'', data = ascii ''x''\<rparr>"
         and hu = "\<lparr>handleRequestHeader = None, handleGlobalMessage = True,
                     handleBackendError = True\<rparr>"
         and adapter_u = "\<lambda>c. Inr \<lparr>code = 7, message = ascii ''ok'', data = ascii ''x''\<rparr>"
         and cu = "\<lparr>url = None, showGlobalMessage = None, successCode = None,
                     enableCodeCheck = Some False\<rparr>"
         and res' = "\<lparr>code = 7, message = ascii ''ok'', data = ascii ''x''\<rparr>"]
    C6_business_success
      [where num = Number_toString and hu = "\<lparr>handleRequestHeader = None, handleGlobalMessage = True,
                     handleBackendError = True\<rparr>"
         and adapter_u = "\<lambda>c. Inr \<lparr>code = 200, message = ascii ''ok'', data = ascii ''x''\<rparr>"
         and cu = "\<lparr>url = None, showGlobalMessage = None, successCode = Some 200,
                     enableCodeCheck = None\<rparr>"
         and res' = "\<lparr>code = 200, message = ascii ''ok'', data = ascii ''x''\<rparr>",
       THEN conjunct2]
  by (simp add: src_requestOnFulfilled_def utils_requestOnFulfilled_def merge_default_def)

text \<open>
  Claim C7. On a response that is a business success for both variants, the response
  interceptor of the \<open>src\<close> variant resolves with the \<open>data\<close> field of the envelope and
  that of the \<open>utils\<close> variant with the envelope itself.
\<close>

theorem C7_variants_differ:
  "successCode cs = Some (code res) \<and> successCode cu = Some (code res)
   \<longrightarrow> fst (src_responseOnFulfilled num hs \<lparr>response_config = cs, response_data = res\<rparr>)
         = Resolve (Data (data res))
     \<and> fst (utils_responseOnFulfilled num hu \<lparr>response_config = cu, response_data = res\<rparr>)
         = Resolve (Envelope res)"
  by (simp add: src_responseOnFulfilled_def utils_responseOnFulfilled_def Let_def)

text \<open>The theorem at the envelope \<open>{ code: 10000, message: 'ok', data: 'x' }\<close>.\<close>

theorem C7_variants_differ_witness:
  "fst (src_responseOnFulfilled Number_toString
          \<lparr>handleRequestHeader = None, handleGlobalMessage = True, handleBackendError = True\<rparr>
          \<lparr>response_config = \<lparr>url = None, showGlobalMessage = Some True,
                                successCode = Some 10000\<rparr>,
             response_data = \<lparr>code = 10000, message = ascii ''ok'', data = ascii ''x''\<rparr>\<rparr>)
     = Resolve (Data (ascii ''x''))
   \<and> fst (utils_responseOnFulfilled Number_toString
          \<lparr>handleRequestHeader = None, handleGlobalMessage = True, handleBackendError = True\<rparr>
          \<lparr>response_config = \<lparr>url = None, showGlobalMessage = Some True,
                                successCode = Some 10000, enableCodeCheck = Some True\<rparr>,
             response_data = \<lparr>code = 10000, message = ascii ''ok'', data = ascii ''x''\<rparr>\<rparr>)
     = Resolve (Envelope \<lparr>code = 10000, message = ascii ''ok'', data = ascii ''x''\<rparr>)"
  using C7_variants_differ
    [where num = Number_toString and cs = "\<lparr>url = None, showGlobalMessage = Some True, successCode = Some 10000\<rparr>"
       and cu = "\<lparr>url = None, showGlobalMessage = Some True, successCode = Some 10000,
                   enableCodeCheck = Some True\<rparr>"
       and res = "\<lparr>code = 10000, message = ascii ''ok'', data = ascii ''x''\<rparr>"
       and hs = "\<lparr>handleRequestHeader = None, handleGlobalMessage = True,
                   handleBackendError = True\<rparr>"
       and hu = "\<lparr>handleRequestHeader = None, handleGlobalMessage = True,
                   handleBackendError = True\<rparr>"]
  by simp

text \<open>
  Claim C8, as the code has it. On a transport failure the rejection is the error with
  its \<open>message\<close> replaced by the resolved message, and \<open>handleGlobalMessage\<close> is called
  with that message when \<open>showGlobalMessage\<close> is true (and the hook is registered). The
  message follows the table of the source, whose texts are the Chinese literals of
  \<open>msg_cancelled\<close>, \<open>msg_401\<close>, \<open>msg_403\<close>, \<open>msg_404\<close> (followed by the url),
  \<open>msg_500\<close>, \<open>msg_http\<close> (followed by the status), \<open>msg_network\<close> and \<open>msg_unknown\<close>.
\<close>

theorem C8_message_table:
  "responseOnRejected h error =
     (Reject (Error (error\<lparr>error_message := resolve_message error\<rparr>)),
      if (case error_config error of None \<Rightarrow> False
          | Some config \<Rightarrow> showGlobalMessage config = Some True) \<and> handleGlobalMessage h
      then [HandleGlobalMessage (resolve_message error)] else [])
   \<and> (isCancel error \<longrightarrow> resolve_message error = msg_cancelled)
   \<and> (\<not> isCancel error \<and> error_response error = Some r \<longrightarrow>
        resolve_message error =
          (if status r = 401 then msg_401
           else if status r = 403 then msg_403
           else if status r = 404 then msg_404 (response_url r)
           else if status r = 500 then msg_500
           else msg_http (status r)))
   \<and> (\<not> isCancel error \<and> error_response error = None \<and> error_request error \<longrightarrow>
        resolve_message error = msg_network)
   \<and> (\<not> isCancel error \<and> error_response error = None \<and> \<not> error_request error \<longrightarrow>
        resolve_message error = msg_unknown)"
  by (simp add: responseOnRejected_def resolve_message_def Let_def)

text \<open>
  The theorem at a 404 response for the url \<open>/a\<close>, with \<open>showGlobalMessage\<close> true and
  the hook registered, and at a cancelled request, a request without a response and an
  error that is neither.
\<close>

theorem C8_message_table_witness:
  "responseOnRejected
     \<lparr>handleRequestHeader = None, handleGlobalMessage = True, handleBackendError = False\<rparr>
     \<lparr>isCancel = False,
        error_response = Some \<lparr>status = 404, response_url = Some (ascii ''/a'')\<rparr>,
        error_request = True,
        error_config = Some \<lparr>url = Some (ascii ''/a''), showGlobalMessage = Some True,
                              successCode = Some 10000\<rparr>,
        error_message = ascii ''Request failed with status code 404''\<rparr>
   = (Reject (Error
        \<lparr>isCancel = False,
           error_response = Some \<lparr>status = 404, response_url = Some (ascii ''/a'')\<rparr>,
           error_request = True,
           error_config = Some \<lparr>url = Some (ascii ''/a''), showGlobalMessage = Some True,
                                 successCode = Some 10000\<rparr>,
           error_message = msg_404 (Some (ascii ''/a''))\<rparr>),
      [HandleGlobalMessage (msg_404 (Some (ascii ''/a'')))])
   \<and> resolve_message
       \<lparr>isCancel = True, error_response = None, error_request = False,
          error_config = (None :: RequestConfig option), error_message = ascii ''canceled''\<rparr>
     = msg_cancelled
   \<and> resolve_message
       \<lparr>isCancel = False, error_response = None, error_request = True,
          error_config = (None :: RequestConfig option), error_message = ascii ''Network Error''\<rparr>
     = msg_network
   \<and> resolve_message
       \<lparr>isCancel = False, error_response = None, error_request = False,
          error_config = (None :: RequestConfig option), error_message = ascii ''boom''\<rparr>
     = msg_unknown"
  using
    C8_message_table
    [where h = "\<lparr>handleRequestHeader = None, handleGlobalMessage = True,
                  handleBackendError = False\<rparr>"
       and error = "\<lparr>isCancel = False,
          error_response = Some \<lparr>status = 404, response_url = Some (ascii ''/a'')\<rparr>,
          error_request = True,
          error_config = Some \<lparr>url = Some (ascii ''/a''), showGlobalMessage = Some True,
                                successCode = Some 10000\<rparr>,
          error_message = ascii ''Request failed with status code 404''\<rparr>"
       and r = "\<lparr>status = 404, response_url = Some (ascii ''/a'')\<rparr>"]
    C8_message_table
    [where error = "\<lparr>isCancel = True, error_response = None, error_request = False,
          error_config = (None :: RequestConfig option), error_message = ascii ''canceled''\<rparr>",
     THEN conjunct2, THEN conjunct1]
    C8_message_table
    [where error = "\<lparr>isCancel = False, error_response = None, error_request = True,
          error_config = (None :: RequestConfig option), error_message = ascii ''Network Error''\<rparr>",
     THEN conjunct2, THEN conjunct2, THEN conjunct2, THEN conjunct1]
    C8_message_table
    [where error = "\<lparr>isCancel = False, error_response = None, error_request = False,
          error_config = (None :: RequestConfig option), error_message = ascii ''boom''\<rparr>",
     THEN conjunct2, THEN conjunct2, THEN conjunct2, THEN conjunct2]
  by (simp add: resolve_message_def)

text \<open>
  Claim C8 as it is stated fails: the message for an HTTP 401 is the literal \<open>msg_401\<close>
  of the source and not the English text of the claim's table.
\<close>

theorem C8_counterexample:
  "resolve_message
     \<lparr>isCancel = False,
        error_response = Some \<lparr>status = 401, response_url = None\<rparr>,
        error_request = True,
        error_config = (None :: RequestConfig option),
        error_message = []\<rparr>
   = [0x672A, 0x6388, 0x6743, 0xFF0C, 0x8BF7, 0x91CD, 0x65B0, 0x767B, 0x5F55]
   \<and> [0x672A, 0x6388, 0x6743, 0xFF0C, 0x8BF7, 0x91CD, 0x65B0, 0x767B, 0x5F55]
       \<noteq> ascii ''unauthorized, please re-login''"
  by (simp add: resolve_message_def msg_401_def ascii_def)

section \<open>Properties of the stream consumer\<close>

subsection \<open>Lines, chunks and the read loop\<close>


lemma trace_emit: "trace (emit b e st) = trace st @ (if b then [e] else [])"
  by (simp add: emit_def)

lemma fullText_emit: "fullText (emit b e st) = fullText st"
  by (simp add: emit_def)

lemma trace_append_content:
  "trace (append_content cb c s st) =
     trace st @ (if onMessage cb then [OnMessage c (fullText st @ s)] else [])"
  by (simp add: append_content_def Let_def trace_emit)

lemma fullText_append_content:
  "fullText (append_content cb c s st) = fullText st @ s"
  by (simp add: append_content_def Let_def fullText_emit)

lemma try_json_cases:
  "try_json P extr cb payload st = st
   \<or> (\<exists>c s. try_json P extr cb payload st = append_content cb c s st)"
  by (auto simp: try_json_def split: option.splits)

lemma for_lines_trace:
  "for_lines P extr cb ls st = Continue st' \<Longrightarrow>
     \<exists>es. trace st' = trace st @ es \<and> list_all quiet es"
proof (induction ls arbitrary: st)
  case Nil
  then show ?case by simp
next
  case (Cons l ls)
  show ?case
  proof (cases "trim l = []")
    case True
    with Cons show ?thesis by simp
  next
    case nb: False
    show ?thesis
    proof (cases "startsWith l (ascii ''data: '')")
      case False
      with nb Cons.prems
      have "for_lines P extr cb ls (append_content cb (Text l) l st) = Continue st'" by simp
      from Cons.IH[OF this] show ?thesis
        by (auto simp: trace_append_content quiet_def)
    next
      case True
      with nb Cons.prems have nd: "trim (slice_js l 6) \<noteq> ascii ''[DONE]''"
        by (auto simp: Let_def split: if_splits)
      with nb True Cons.prems
      have "for_lines P extr cb ls (try_json P extr cb (trim (slice_js l 6)) st) = Continue st'"
        by (simp add: Let_def)
      from Cons.IH[OF this] try_json_cases[of P extr cb "trim (slice_js l 6)" st]
      show ?thesis
        by (auto simp: trace_append_content quiet_def)
    qed
  qed
qed


lemma quiet_facts:
  "list_all quiet es \<Longrightarrow>
     count_list es ReaderRead = 0 \<and> filter is_OnError es = [] \<and> filter is_OnComplete es = []"
  by (induction es) (auto simp: quiet_def)

lemma for_lines_append:
  "for_lines P extr cb (pre @ ls) st =
     (case for_lines P extr cb pre st of
        Return s \<Rightarrow> Return s
      | Continue s \<Rightarrow> for_lines P extr cb ls s)"
  by (induction pre arbitrary: st) (auto simp: Let_def)

lemma for_chunks_trace:
  "for_chunks P extr cb cs st = Continue st' \<Longrightarrow>
     \<exists>es. trace st' = trace st @ es
        \<and> count_list es ReaderRead = length cs
        \<and> filter is_OnError es = [] \<and> filter is_OnComplete es = []"
proof (induction cs arbitrary: st)
  case Nil
  then show ?case by simp
next
  case (Cons c cs)
  let ?st1 = "st\<lparr>trace := trace st @ [ReaderRead]\<rparr>"
  from Cons.prems obtain st2 where
    l: "for_lines P extr cb (split_lf c) ?st1 = Continue st2" and
    r: "for_chunks P extr cb cs st2 = Continue st'"
    by (auto split: flow.splits)
  from for_lines_trace[OF l] obtain es1 where
    e1: "trace st2 = trace st @ [ReaderRead] @ es1" "list_all quiet es1" by auto
  from Cons.IH[OF r] obtain es2 where
    e2: "trace st' = trace st2 @ es2" "count_list es2 ReaderRead = length cs"
      "filter is_OnError es2 = []" "filter is_OnComplete es2 = []" by auto
  have "trace st' = trace st @ ([ReaderRead] @ es1 @ es2)" using e1 e2 by simp
  moreover have "count_list ([ReaderRead] @ es1 @ es2) ReaderRead = length (c # cs)"
    using quiet_facts[OF e1(2)] e2 by simp
  moreover have "filter is_OnError ([ReaderRead] @ es1 @ es2) = []"
    using quiet_facts[OF e1(2)] e2 by simp
  moreover have "filter is_OnComplete ([ReaderRead] @ es1 @ es2) = []"
    using quiet_facts[OF e1(2)] e2 by simp
  ultimately show ?case by blast
qed

lemma read_loop_chunks:
  "(\<And>i. i < length cs \<Longrightarrow> reader (n + i) = ReadValue (cs ! i)) \<Longrightarrow>
   read_loop P extr cb reader n st =
     (case for_chunks P extr cb cs st of
        Return st' \<Rightarrow> Some (Returned, st')
      | Continue st' \<Rightarrow> read_loop P extr cb reader (n + length cs) st')"
proof (induction cs arbitrary: n st)
  case Nil
  then show ?case by simp
next
  case (Cons c cs)
  from Cons.prems[of 0] have r0: "reader n = ReadValue c" by simp
  have rest: "\<And>i. i < length cs \<Longrightarrow> reader (Suc n + i) = ReadValue (cs ! i)"
    using Cons.prems[of "Suc i" for i] by simp
  show ?case
    by (subst read_loop.simps) (simp add: r0 Cons.IH[OF rest] split: flow.splits)
qed

lemma data_line_not_blank: "startsWith l (ascii ''data: '') \<Longrightarrow> trim l \<noteq> []"
proof -
  assume "startsWith l (ascii ''data: '')"
  then obtain r where l: "l = 0x64 # r"
    by (cases l) (auto simp: startsWith_def ascii_def)
  have nw: "\<not> isWhiteSpace 0x64" by (simp add: isWhiteSpace_def)
  have "dropWhile isWhiteSpace l = l" using l nw by simp
  moreover have "dropWhile isWhiteSpace (rev l) \<noteq> []"
    using l nw by (auto simp: dropWhile_eq_Nil_conv)
  ultimately show ?thesis by (simp add: trim_def)
qed

lemma started_trace:
  "count_list (trace (started b options cb)) ReaderRead = 0
   \<and> filter is_OnError (trace (started b options cb)) = []
   \<and> filter is_OnComplete (trace (started b options cb)) = []"
  by (simp add: started_def Let_def emit_def)

lemma sentinel_line:
  "startsWith line (ascii ''data: '') \<Longrightarrow> trim (slice_js line 6) = ascii ''[DONE]'' \<Longrightarrow>
   for_lines P extr cb (line # rest) st = Return (emit (onComplete cb) (OnComplete (fullText st)) st)"
  by (simp add: data_line_not_blank Let_def)


lemma rejected_once_catch:
  "filter is_OnError (trace st) = [] \<Longrightarrow> filter is_OnComplete (trace st) = [] \<Longrightarrow>
   rejected_once cb err (Some (catch cb err st))"
  by (simp add: rejected_once_def catch_def trace_emit)





lemma append_content_record:
  "append_content cb c s st =
     \<lparr>fullText = fullText st @ s,
        trace = trace st @ (if onMessage cb then [OnMessage c (fullText st @ s)] else [])\<rparr>"
  by (simp add: append_content_def emit_def Let_def)

lemma read_loop_needs_an_end:
  assumes "read_loop P extr cb reader n st = Some y"
  shows "\<exists>k. reader k \<noteq> ReadValue []"
proof -
  have "(\<lambda>x y. \<exists>k. (snd (fst (fst x))) k \<noteq> ReadValue [])
          (((((P, extr), cb), reader), n), st) y"
  proof (rule read_loop.raw_induct[OF _ assms])
    fix read_loop' P' extr' cb' reader' n' st' y'
    assume IH: "\<And>extr cb reader n st b y.
        read_loop' extr cb reader n st b = Some y \<Longrightarrow>
        \<exists>k. snd (fst (fst (((((extr, cb), reader), n), st), b))) k \<noteq> ReadValue []"
      and body: "(case reader' n' of
          ReadValue chunk \<Rightarrow>
            (case for_lines P' extr' cb' (split_lf chunk)
                  (st'\<lparr>trace := trace st' @ [ReaderRead]\<rparr>) of
               Continue st'' \<Rightarrow> read_loop' P' extr' cb' reader' (Suc n') st''
             | Return st'' \<Rightarrow> Some (Returned, st''))
        | ReadDone \<Rightarrow> Some (Broke, st'\<lparr>trace := trace st' @ [ReaderRead]\<rparr>)
        | ReadRejects e \<Rightarrow> Some (Threw e, st'\<lparr>trace := trace st' @ [ReaderRead]\<rparr>)) = Some y'"
    show "\<exists>k. snd (fst (fst (((((P', extr'), cb'), reader'), n'), st'))) k \<noteq> ReadValue []"
    proof (cases "reader' n' = ReadValue []")
      case False
      then show ?thesis by auto
    next
      case True
      with body have "read_loop' P' extr' cb' reader' (Suc n') (st'\<lparr>trace := trace st' @ [ReaderRead]\<rparr>) = Some y'"
        by (simp add: trim_def)
      from IH[OF this] show ?thesis by simp
    qed
  qed
  then show ?thesis by simp
qed

subsection \<open>The claims\<close>

text \<open>
  Claim C2. When the loop reaches a line that starts with \<open>data: \<close> and whose payload,
  stripped of the prefix and trimmed, is \<open>[DONE]\<close>, \<open>onComplete(fullText)\<close> is invoked
  and the call resolves with \<open>{ fullText, abort }\<close>, with the text accumulated up to that
  line. The chunk of that line was the last one read: the reads of the run are those of
  the earlier chunks and this one, whatever the body would deliver afterwards.
\<close>

theorem C2_done_sentinel:
  assumes "fetch (request_url this_baseURL options) (request_method options)
             (requestSignal options) = FetchResolves response"
    and "response_ok response"
    and "response_body response = Some reader"
    and "\<forall>i<length chunks. reader i = ReadValue (chunks ! i)"
    and "for_chunks P (extractContent options) cb chunks (started this_baseURL options cb)
           = Continue st"
    and "reader (length chunks) = ReadValue chunk"
    and "split_lf chunk = pre @ line # rest"
    and "for_lines P (extractContent options) cb pre (st\<lparr>trace := trace st @ [ReaderRead]\<rparr>)
           = Continue st'"
    and "startsWith line (ascii ''data: '')"
    and "trim (slice_js line 6) = ascii ''[DONE]''"
  shows "stream P this_baseURL fetch options cb =
           Some (Resolved (StreamResponse (fullText st') ControllerSignal),
                 trace st' @ (if onComplete cb then [OnComplete (fullText st')] else []))
         \<and> count_list (trace st' @ (if onComplete cb then [OnComplete (fullText st')] else []))
              ReaderRead = Suc (length chunks)"
proof -
  let ?x = "extractContent options"
  let ?st0 = "started this_baseURL options cb"
  let ?done = "emit (onComplete cb) (OnComplete (fullText st')) st'"
  have lines: "for_lines P ?x cb (split_lf chunk) (st\<lparr>trace := trace st @ [ReaderRead]\<rparr>)
                 = Return ?done"
    using assms(7,8) sentinel_line[OF assms(9,10), of P ?x cb rest st']
    by (simp add: for_lines_append del: for_lines.simps)
  have step: "read_loop P ?x cb reader (length chunks) st = Some (Returned, ?done)"
    by (subst read_loop.simps) (simp add: assms(6) lines)
  have "read_loop P ?x cb reader 0 ?st0 = read_loop P ?x cb reader (0 + length chunks) st"
    using read_loop_chunks[of chunks reader 0 P ?x cb ?st0] assms(4,5) by simp
  with step have loop: "read_loop P ?x cb reader 0 ?st0 = Some (Returned, ?done)" by simp
  have run: "stream P this_baseURL fetch options cb =
           Some (Resolved (StreamResponse (fullText st') ControllerSignal),
                 trace st' @ (if onComplete cb then [OnComplete (fullText st')] else []))"
    using assms(1-3) loop by (simp add: stream_def Let_def trace_emit fullText_emit)
  from for_chunks_trace[OF assms(5)] obtain es where
    es: "trace st = trace ?st0 @ es" "count_list es ReaderRead = length chunks" by auto
  from for_lines_trace[OF assms(8)] obtain es1 where
    es1: "trace st' = trace st @ [ReaderRead] @ es1" "list_all quiet es1" by auto
  have "count_list (trace st') ReaderRead = Suc (length chunks)"
    using es es1 quiet_facts[OF es1(2)] started_trace[of this_baseURL options cb] by simp
  with run show ?thesis by simp
qed

text \<open>
  The theorem at a body that delivers \<open>ab\<close>, then the line \<open>data: [DONE]\<close>, and would
  reject every later read: the call resolves with \<open>fullText = 'ab'\<close>, \<open>onComplete\<close> is
  invoked with \<open>'ab'\<close>, and there are two reads.
\<close>

theorem C2_done_sentinel_witness:
  "stream example_platform (ascii ''http://h'')
     (\<lambda>u m s. FetchResolves
        \<lparr>response_ok = True, response_status = 200,
           response_body = Some (\<lambda>n. if n = 0 then ReadValue (ascii ''ab'')
                                       else if n = 1 then ReadValue (ascii ''data: [DONE]'' @ [0x0A])
                                       else ReadRejects TypeError)\<rparr>)
     \<lparr>stream_url = ascii ''/s'', stream_method = None, baseURL = None, signal = None,
        extractContent = None\<rparr>
     \<lparr>onMessage = True, onError = True, onComplete = True, onStart = True\<rparr>
   = Some (Resolved (StreamResponse (ascii ''ab'') ControllerSignal),
           [OnStart, Fetch (ascii ''http://h/s'') POST ControllerSignal, ReaderRead,
            OnMessage (Text (ascii ''ab'')) (ascii ''ab''), ReaderRead,
            OnComplete (ascii ''ab'')])"
  using C2_done_sentinel
    [where P = example_platform and this_baseURL = "ascii ''http://h''"
       and fetch = "\<lambda>u m s. FetchResolves
        \<lparr>response_ok = True, response_status = 200,
           response_body = Some (\<lambda>n. if n = 0 then ReadValue (ascii ''ab'')
                                       else if n = 1 then ReadValue (ascii ''data: [DONE]'' @ [0x0A])
                                       else ReadRejects TypeError)\<rparr>"
       and response = "\<lparr>response_ok = True, response_status = 200,
           response_body = Some (\<lambda>n. if n = 0 then ReadValue (ascii ''ab'')
                                       else if n = 1 then ReadValue (ascii ''data: [DONE]'' @ [0x0A])
                                       else ReadRejects TypeError)\<rparr>"
       and reader = "\<lambda>n. if n = 0 then ReadValue (ascii ''ab'')
                         else if n = 1 then ReadValue (ascii ''data: [DONE]'' @ [0x0A])
                         else ReadRejects TypeError"
       and options = "\<lparr>stream_url = ascii ''/s'', stream_method = None, baseURL = None,
                        signal = None, extractContent = None\<rparr>"
       and cb = "\<lparr>onMessage = True, onError = True, onComplete = True, onStart = True\<rparr>"
       and chunks = "[ascii ''ab'']"
       and st = "\<lparr>fullText = ascii ''ab'',
                   trace = [OnStart, Fetch (ascii ''http://h/s'') POST ControllerSignal, ReaderRead,
                            OnMessage (Text (ascii ''ab'')) (ascii ''ab'')]\<rparr>"
       and chunk = "ascii ''data: [DONE]'' @ [0x0A]"
       and pre = "[]" and line = "ascii ''data: [DONE]''" and rest = "[[]]"
       and st' = "\<lparr>fullText = ascii ''ab'',
                   trace = [OnStart, Fetch (ascii ''http://h/s'') POST ControllerSignal, ReaderRead,
                            OnMessage (Text (ascii ''ab'')) (ascii ''ab''), ReaderRead]\<rparr>"]
  by (simp add: ascii_def trim_def isWhiteSpace_def startsWith_def slice_js_def started_def
      emit_def append_content_def request_url_def request_method_def requestSignal_def)

text \<open>
  Claim C4. When \<open>fetch\<close> rejects (a network failure or a cancellation), when the status
  is not OK, when the body is not readable, and when a read of the body rejects after any
  number of chunks without the sentinel, the call rejects with the error: it does not
  resolve. \<open>onError\<close>, when supplied, is invoked exactly once, with that error, and
  \<open>onComplete\<close> is not invoked.
\<close>

theorem C4_errors_reported_once:
  "(fetch (request_url this_baseURL options) (request_method options) (requestSignal options)
      = FetchRejects err
    \<longrightarrow> rejected_once cb err (stream P this_baseURL fetch options cb))
   \<and> (fetch (request_url this_baseURL options) (request_method options) (requestSignal options)
      = FetchResolves response \<and> \<not> response_ok response
    \<longrightarrow> rejected_once cb
          (NewError (ascii ''HTTP error! status: '' @ Number_toString (response_status response)))
          (stream P this_baseURL fetch options cb))
   \<and> (fetch (request_url this_baseURL options) (request_method options) (requestSignal options)
      = FetchResolves response \<and> response_ok response \<and> response_body response = None
    \<longrightarrow> rejected_once cb (NewError (ascii ''Response body is not readable''))
          (stream P this_baseURL fetch options cb))
   \<and> (fetch (request_url this_baseURL options) (request_method options) (requestSignal options)
      = FetchResolves response \<and> response_ok response \<and> response_body response = Some reader
      \<and> (\<forall>i<length chunks. reader i = ReadValue (chunks ! i))
      \<and> for_chunks P (extractContent options) cb chunks (started this_baseURL options cb)
          = Continue st
      \<and> reader (length chunks) = ReadRejects err
    \<longrightarrow> rejected_once cb err (stream P this_baseURL fetch options cb))"
proof -
  let ?x = "extractContent options"
  let ?st0 = "started this_baseURL options cb"
  note s0 = started_trace[of this_baseURL options cb]
  have early: "rejected_once cb e (Some (catch cb e ?st0))" for e
    using s0 by (simp add: rejected_once_catch)
  have "rejected_once cb err (stream P this_baseURL fetch options cb)"
    if f: "fetch (request_url this_baseURL options) (request_method options)
             (requestSignal options) = FetchResolves response"
      and ok: "response_ok response" and body: "response_body response = Some reader"
      and reads: "\<forall>i<length chunks. reader i = ReadValue (chunks ! i)"
      and before: "for_chunks P ?x cb chunks ?st0 = Continue st"
      and fails: "reader (length chunks) = ReadRejects err"
  proof -
    let ?st1 = "st\<lparr>trace := trace st @ [ReaderRead]\<rparr>"
    have step: "read_loop P ?x cb reader (length chunks) st = Some (Threw err, ?st1)"
      by (subst read_loop.simps) (simp add: fails)
    have "read_loop P ?x cb reader 0 ?st0 = read_loop P ?x cb reader (0 + length chunks) st"
      using read_loop_chunks[of chunks reader 0 P ?x cb ?st0] reads before by simp
    with step have loop: "read_loop P ?x cb reader 0 ?st0 = Some (Threw err, ?st1)" by simp
    from for_chunks_trace[OF before] obtain es where
      "trace st = trace ?st0 @ es" "filter is_OnError es = []" "filter is_OnComplete es = []"
      by auto
    with s0 have "filter is_OnError (trace ?st1) = []" "filter is_OnComplete (trace ?st1) = []"
      by simp_all
    then have "rejected_once cb err (Some (catch cb err ?st1))"
      by (rule rejected_once_catch)
    with f ok body loop show ?thesis by (simp add: stream_def Let_def)
  qed
  with early show ?thesis by (simp add: stream_def Let_def)
qed

text \<open>
  The theorem at a rejected \<open>fetch\<close>, at a status 503, at a response without a body, and
  at a body whose second read rejects with an abort error after the chunk \<open>ab\<close>.
\<close>

theorem C4_errors_reported_once_witness:
  "rejected_once \<lparr>onMessage = True, onError = True, onComplete = True, onStart = True\<rparr>
     TypeError
     (stream example_platform (ascii ''http://h'') (\<lambda>u m s. FetchRejects TypeError)
        \<lparr>stream_url = ascii ''/s'', stream_method = None, baseURL = None, signal = None,
           extractContent = None\<rparr>
        \<lparr>onMessage = True, onError = True, onComplete = True, onStart = True\<rparr>)
   \<and> rejected_once \<lparr>onMessage = True, onError = True, onComplete = True, onStart = True\<rparr>
     (NewError (ascii ''HTTP error! status: 503''))
     (stream example_platform (ascii ''http://h'')
        (\<lambda>u m s. FetchResolves
           \<lparr>response_ok = False, response_status = 503, response_body = None\<rparr>)
        \<lparr>stream_url = ascii ''/s'', stream_method = None, baseURL = None, signal = None,
           extractContent = None\<rparr>
        \<lparr>onMessage = True, onError = True, onComplete = True, onStart = True\<rparr>)
   \<and> rejected_once \<lparr>onMessage = True, onError = True, onComplete = True, onStart = True\<rparr>
     (NewError (ascii ''Response body is not readable''))
     (stream example_platform (ascii ''http://h'')
        (\<lambda>u m s. FetchResolves
           \<lparr>response_ok = True, response_status = 204, response_body = None\<rparr>)
        \<lparr>stream_url = ascii ''/s'', stream_method = None, baseURL = None, signal = None,
           extractContent = None\<rparr>
        \<lparr>onMessage = True, onError = True, onComplete = True, onStart = True\<rparr>)
   \<and> rejected_once \<lparr>onMessage = True, onError = True, onComplete = True, onStart = True\<rparr>
     AbortError
     (stream example_platform (ascii ''http://h'')
        (\<lambda>u m s. FetchResolves
           \<lparr>response_ok = True, response_status = 200,
              response_body = Some (\<lambda>n. if n = 0 then ReadValue (ascii ''ab'')
                                          else ReadRejects AbortError)\<rparr>)
        \<lparr>stream_url = ascii ''/s'', stream_method = None, baseURL = None, signal = None,
           extractContent = None\<rparr>
        \<lparr>onMessage = True, onError = True, onComplete = True, onStart = True\<rparr>)"
  using
    C4_errors_reported_once
      [where P = example_platform and this_baseURL = "ascii ''http://h''"
         and fetch = "\<lambda>u m s. FetchRejects TypeError" and err = TypeError
         and options = "\<lparr>stream_url = ascii ''/s'', stream_method = None, baseURL = None,
                          signal = None, extractContent = None\<rparr>"
         and cb = "\<lparr>onMessage = True, onError = True, onComplete = True, onStart = True\<rparr>",
       THEN conjunct1]
    C4_errors_reported_once
      [where P = example_platform and this_baseURL = "ascii ''http://h''"
         and fetch = "\<lambda>u m s. FetchResolves
           \<lparr>response_ok = False, response_status = 503, response_body = None\<rparr>"
         and response = "\<lparr>response_ok = False, response_status = 503, response_body = None\<rparr>"
         and options = "\<lparr>stream_url = ascii ''/s'', stream_method = None, baseURL = None,
                          signal = None, extractContent = None\<rparr>"
         and cb = "\<lparr>onMessage = True, onError = True, onComplete = True, onStart = True\<rparr>",
       THEN conjunct2, THEN conjunct1]
    C4_errors_reported_once
      [where P = example_platform and this_baseURL = "ascii ''http://h''"
         and fetch = "\<lambda>u m s. FetchResolves
           \<lparr>response_ok = True, response_status = 204, response_body = None\<rparr>"
         and response = "\<lparr>response_ok = True, response_status = 204, response_body = None\<rparr>"
         and options = "\<lparr>stream_url = ascii ''/s'', stream_method = None, baseURL = None,
                          signal = None, extractContent = None\<rparr>"
         and cb = "\<lparr>onMessage = True, onError = True, onComplete = True, onStart = True\<rparr>",
       THEN conjunct2, THEN conjunct2, THEN conjunct1]
    C4_errors_reported_once
      [where P = example_platform and this_baseURL = "ascii ''http://h''"
         and fetch = "\<lambda>u m s. FetchResolves
           \<lparr>response_ok = True, response_status = 200,
              response_body = Some (\<lambda>n. if n = 0 then ReadValue (ascii ''ab'')
                                          else ReadRejects AbortError)\<rparr>"
         and response = "\<lparr>response_ok = True, response_status = 200,
              response_body = Some (\<lambda>n. if n = 0 then ReadValue (ascii ''ab'')
                                          else ReadRejects AbortError)\<rparr>"
         and reader = "\<lambda>n. if n = 0 then ReadValue (ascii ''ab'') else ReadRejects AbortError"
         and chunks = "[ascii ''ab'']" and err = AbortError
         and st = "\<lparr>fullText = ascii ''ab'',
                     trace = [OnStart, Fetch (ascii ''http://h/s'') POST ControllerSignal,
                              ReaderRead, OnMessage (Text (ascii ''ab'')) (ascii ''ab'')]\<rparr>"
         and options = "\<lparr>stream_url = ascii ''/s'', stream_method = None, baseURL = None,
                          signal = None, extractContent = None\<rparr>"
         and cb = "\<lparr>onMessage = True, onError = True, onComplete = True, onStart = True\<rparr>",
       THEN conjunct2, THEN conjunct2, THEN conjunct2]
  by (simp add: ascii_def trim_def isWhiteSpace_def startsWith_def started_def
      emit_def append_content_def request_url_def request_method_def requestSignal_def
      Number_toString_def decimal.simps)



text \<open>
  Claim C3, as the code has it. For a line that starts with \<open>data: \<close> and whose trimmed
  payload is not the sentinel: when the payload parses as JSON and \<open>extractContent\<close> is
  provided and returns a non-empty string, exactly that string is appended to \<open>fullText\<close>
  and passed to \<open>onMessage\<close>; when \<open>extractContent\<close> is absent, the parsed value is
  truthy and its conversion to a string gives \<open>t\<close> (it does not throw), \<open>t\<close> is appended
  and the parsed value is passed to \<open>onMessage\<close>; when \<open>extractContent\<close> is absent and
  the parsed value is falsy, nothing is appended and \<open>onMessage\<close> is not invoked; when
  \<open>JSON.parse\<close> throws, the raw trimmed payload is appended and passed to \<open>onMessage\<close>.
\<close>

theorem C3_data_line_content:
  assumes "startsWith line (ascii ''data: '')"
    and "payload = trim (slice_js line 6)"
    and "payload \<noteq> ascii ''[DONE]''"
  shows "(JSON_parse P payload = Some parsed \<and> extr = Some f \<and> f parsed = Some s \<and> s \<noteq> []
          \<longrightarrow> for_lines P extr cb (line # lines) st =
                for_lines P extr cb lines
                  \<lparr>fullText = fullText st @ s,
                     trace = trace st @ (if onMessage cb
                                         then [OnMessage (Text s) (fullText st @ s)] else [])\<rparr>)
       \<and> (JSON_parse P payload = Some parsed \<and> extr = None \<and> ToBoolean P parsed
            \<and> ToString P parsed = Some t
          \<longrightarrow> for_lines P extr cb (line # lines) st =
                for_lines P extr cb lines
                  \<lparr>fullText = fullText st @ t,
                     trace = trace st @ (if onMessage cb
                                         then [OnMessage (Value parsed) (fullText st @ t)]
                                         else [])\<rparr>)
       \<and> (JSON_parse P payload = Some parsed \<and> extr = None \<and> \<not> ToBoolean P parsed
          \<longrightarrow> for_lines P extr cb (line # lines) st = for_lines P extr cb lines st)
       \<and> (JSON_parse P payload = None
          \<longrightarrow> for_lines P extr cb (line # lines) st =
                for_lines P extr cb lines
                  \<lparr>fullText = fullText st @ payload,
                     trace = trace st @ (if onMessage cb
                                         then [OnMessage (Text payload) (fullText st @ payload)]
                                         else [])\<rparr>)"
proof -
  have step: "for_lines P extr cb (line # lines) st
                = for_lines P extr cb lines (try_json P extr cb payload st)"
    using assms data_line_not_blank[OF assms(1)] by (simp add: Let_def)
  show ?thesis
    unfolding step by (auto simp: try_json_def append_content_record)
qed

text \<open>
  The theorem at the line \<^verbatim>\<open>data: {"v":1}\<close> with \<open>extractContent = r => String(r.v)\<close>:
  \<open>onMessage\<close> is invoked once, with \<open>('1', '1')\<close>, and \<open>fullText\<close> is \<open>1\<close>. Without
  \<open>extractContent\<close>, the same line appends the string form of the object, the line
  \<open>data: 0\<close> appends nothing, and the line \<open>data: hi\<close> appends \<open>hi\<close>.
\<close>

theorem C3_data_line_content_witness:
  "for_lines example_platform (Some example_extract)
     \<lparr>onMessage = True, onError = True, onComplete = True, onStart = True\<rparr>
     [ascii ''data: {\"v\":1}''] \<lparr>fullText = [], trace = []\<rparr>
   = Continue \<lparr>fullText = ascii ''1'',
                trace = [OnMessage (Text (ascii ''1'')) (ascii ''1'')]\<rparr>
   \<and> for_lines example_platform None
     \<lparr>onMessage = True, onError = True, onComplete = True, onStart = True\<rparr>
     [ascii ''data: {\"v\":1}''] \<lparr>fullText = [], trace = []\<rparr>
   = Continue \<lparr>fullText = ascii ''[object Object]'',
                trace = [OnMessage (Value (JObject [(ascii ''v'', JNumber 1)]))
                           (ascii ''[object Object]'')]\<rparr>
   \<and> for_lines example_platform None
     \<lparr>onMessage = True, onError = True, onComplete = True, onStart = True\<rparr>
     [ascii ''data: 0 ''] \<lparr>fullText = [], trace = []\<rparr>
   = Continue \<lparr>fullText = [], trace = []\<rparr>
   \<and> for_lines example_platform None
     \<lparr>onMessage = True, onError = True, onComplete = True, onStart = True\<rparr>
     [ascii ''data: hi''] \<lparr>fullText = [], trace = []\<rparr>
   = Continue \<lparr>fullText = ascii ''hi'',
                trace = [OnMessage (Text (ascii ''hi'')) (ascii ''hi'')]\<rparr>"
  using
    C3_data_line_content
      [where line = "ascii ''data: {\"v\":1}''" and payload = "ascii ''{\"v\":1}''"
         and P = example_platform and parsed = "JObject [(ascii ''v'', JNumber 1)]"
         and extr = "Some example_extract" and f = example_extract and s = "ascii ''1''"
         and cb = "\<lparr>onMessage = True, onError = True, onComplete = True, onStart = True\<rparr>"
         and lines = "[]" and st = "\<lparr>fullText = [], trace = []\<rparr>", THEN conjunct1]
    C3_data_line_content
      [where line = "ascii ''data: {\"v\":1}''" and payload = "ascii ''{\"v\":1}''"
         and P = example_platform and parsed = "JObject [(ascii ''v'', JNumber 1)]"
         and extr = None and t = "ascii ''[object Object]''"
         and cb = "\<lparr>onMessage = True, onError = True, onComplete = True, onStart = True\<rparr>"
         and lines = "[]" and st = "\<lparr>fullText = [], trace = []\<rparr>",
       THEN conjunct2, THEN conjunct1]
    C3_data_line_content
      [where line = "ascii ''data: 0 ''" and payload = "ascii ''0''"
         and P = example_platform and parsed = "JNumber 0"
         and extr = None
         and cb = "\<lparr>onMessage = True, onError = True, onComplete = True, onStart = True\<rparr>"
         and lines = "[]" and st = "\<lparr>fullText = [], trace = []\<rparr>",
       THEN conjunct2, THEN conjunct2, THEN conjunct1]
    C3_data_line_content
      [where line = "ascii ''data: hi''" and payload = "ascii ''hi''"
         and P = example_platform and extr = None
         and cb = "\<lparr>onMessage = True, onError = True, onComplete = True, onStart = True\<rparr>"
         and lines = "[]" and st = "\<lparr>fullText = [], trace = []\<rparr>",
       THEN conjunct2, THEN conjunct2, THEN conjunct2]
  by (simp add: ascii_def trim_def isWhiteSpace_def startsWith_def slice_js_def
      example_platform_def example_parse_def Number_toString_def decimal.simps
      del: for_lines.simps(2))

text \<open>
  Claim C3 as it is stated fails: with no \<open>extractContent\<close>, the payload of the line
  \<open>data: 0\<close> parses as the number 0, which the guard \<open>if (content)\<close> drops: nothing is
  appended and \<open>onMessage\<close> is not invoked.
\<close>

theorem C3_counterexample:
  "JSON_parse example_platform (trim (slice_js (ascii ''data: 0'') 6)) = Some (JNumber 0)
   \<and> for_lines example_platform None
       \<lparr>onMessage = True, onError = True, onComplete = True, onStart = True\<rparr>
       [ascii ''data: 0''] \<lparr>fullText = [], trace = []\<rparr>
     = Continue \<lparr>fullText = [], trace = []\<rparr>"
  by (simp add: ascii_def trim_def isWhiteSpace_def startsWith_def slice_js_def
      example_platform_def example_parse_def try_json_def)

text \<open>
  Claim C9 at the line \<open>data: \<close>, whose payload is empty: \<open>JSON.parse\<close> throws on the
  empty text, and the \<open>catch\<close> branch, which has no guard, invokes \<open>onMessage\<close> with the
  empty content.
\<close>

theorem C9_empty_payload_message:
  "for_lines example_platform None
     \<lparr>onMessage = True, onError = True, onComplete = True, onStart = True\<rparr>
     [ascii ''data: ''] \<lparr>fullText = ascii ''ab'', trace = []\<rparr>
   = Continue \<lparr>fullText = ascii ''ab'', trace = [OnMessage (Text []) (ascii ''ab'')]\<rparr>"
  by (simp add: ascii_def trim_def isWhiteSpace_def startsWith_def slice_js_def
      example_platform_def example_parse_def try_json_def append_content_def emit_def)

text \<open>
  Claim C5 at a body that delivers \<open>a\<close> and ends, for a call that was given a signal of
  the caller's. The abort handle is part of the resolved value, which the run produces
  after its last read and after \<open>onComplete\<close>; the trace has no \<open>onError\<close>. The request
  was issued with the caller's signal, and the handle aborts the controller of the call.
\<close>

theorem C5_abort_handle_after_completion:
  "stream example_platform (ascii ''http://h'')
     (\<lambda>u m s. FetchResolves
        \<lparr>response_ok = True, response_status = 200,
           response_body = Some (\<lambda>n. if n = 0 then ReadValue (ascii ''a'') else ReadDone)\<rparr>)
     \<lparr>stream_url = ascii ''/s'', stream_method = None, baseURL = None, signal = Some 7,
        extractContent = None\<rparr>
     \<lparr>onMessage = True, onError = True, onComplete = True, onStart = True\<rparr>
   = Some (Resolved (StreamResponse (ascii ''a'') ControllerSignal),
           [OnStart, Fetch (ascii ''http://h/s'') POST (CallerSignal 7), ReaderRead,
            OnMessage (Text (ascii ''a'')) (ascii ''a''), ReaderRead,
            OnComplete (ascii ''a'')])"
  by (simp add: stream_def started_def request_url_def request_method_def requestSignal_def
      read_loop.simps ascii_def trim_def isWhiteSpace_def startsWith_def
      append_content_def emit_def Let_def)

subsection \<open>Further properties of the read loop\<close>

text \<open>
  When the body ends without a sentinel, the call resolves with the text accumulated over
  its chunks, after one more read and after \<open>onComplete(fullText)\<close>.
\<close>

theorem stream_exhausted:
  assumes "fetch (request_url this_baseURL options) (request_method options)
             (requestSignal options) = FetchResolves response"
    and "response_ok response"
    and "response_body response = Some reader"
    and "\<forall>i<length chunks. reader i = ReadValue (chunks ! i)"
    and "for_chunks P (extractContent options) cb chunks (started this_baseURL options cb)
           = Continue st"
    and "reader (length chunks) = ReadDone"
  shows "stream P this_baseURL fetch options cb =
           Some (Resolved (StreamResponse (fullText st) ControllerSignal),
                 trace st @ [ReaderRead]
                 @ (if onComplete cb then [OnComplete (fullText st)] else []))"
proof -
  let ?x = "extractContent options"
  let ?st0 = "started this_baseURL options cb"
  have step: "read_loop P ?x cb reader (length chunks) st
                = Some (Broke, st\<lparr>trace := trace st @ [ReaderRead]\<rparr>)"
    by (subst read_loop.simps) (simp add: assms(6))
  have "read_loop P ?x cb reader 0 ?st0 = read_loop P ?x cb reader (0 + length chunks) st"
    using read_loop_chunks[of chunks reader 0 P ?x cb ?st0] assms(4,5) by simp
  with step assms(1-3) show ?thesis
    by (simp add: stream_def Let_def trace_emit fullText_emit)
qed

text \<open>The theorem at a body that delivers \<open>ab\<close> and ends.\<close>

theorem stream_exhausted_witness:
  "stream example_platform (ascii ''http://h'')
     (\<lambda>u m s. FetchResolves
        \<lparr>response_ok = True, response_status = 200,
           response_body = Some (\<lambda>n. if n = 0 then ReadValue (ascii ''ab'') else ReadDone)\<rparr>)
     \<lparr>stream_url = ascii ''/s'', stream_method = None, baseURL = None, signal = None,
        extractContent = None\<rparr>
     \<lparr>onMessage = True, onError = True, onComplete = True, onStart = True\<rparr>
   = Some (Resolved (StreamResponse (ascii ''ab'') ControllerSignal),
           [OnStart, Fetch (ascii ''http://h/s'') POST ControllerSignal, ReaderRead,
            OnMessage (Text (ascii ''ab'')) (ascii ''ab''), ReaderRead,
            OnComplete (ascii ''ab'')])"
  using stream_exhausted
    [where P = example_platform and this_baseURL = "ascii ''http://h''"
       and fetch = "\<lambda>u m s. FetchResolves
        \<lparr>response_ok = True, response_status = 200,
           response_body = Some (\<lambda>n. if n = 0 then ReadValue (ascii ''ab'') else ReadDone)\<rparr>"
       and response = "\<lparr>response_ok = True, response_status = 200,
           response_body = Some (\<lambda>n. if n = 0 then ReadValue (ascii ''ab'') else ReadDone)\<rparr>"
       and reader = "\<lambda>n. if n = 0 then ReadValue (ascii ''ab'') else ReadDone"
       and chunks = "[ascii ''ab'']"
       and st = "\<lparr>fullText = ascii ''ab'',
                   trace = [OnStart, Fetch (ascii ''http://h/s'') POST ControllerSignal, ReaderRead,
                            OnMessage (Text (ascii ''ab'')) (ascii ''ab'')]\<rparr>"
       and options = "\<lparr>stream_url = ascii ''/s'', stream_method = None, baseURL = None,
                        signal = None, extractContent = None\<rparr>"
       and cb = "\<lparr>onMessage = True, onError = True, onComplete = True, onStart = True\<rparr>"]
  by (simp add: ascii_def trim_def isWhiteSpace_def startsWith_def started_def
      emit_def append_content_def request_url_def request_method_def requestSignal_def)

text \<open>
  The loop has no exit of its own: on a body that delivers an empty chunk at every read
  the call never settles.
\<close>

theorem stream_never_settles:
  assumes "fetch (request_url this_baseURL options) (request_method options)
             (requestSignal options) = FetchResolves response"
    and "response_ok response"
    and "response_body response = Some (\<lambda>n. ReadValue [])"
  shows "stream P this_baseURL fetch options cb = None"
proof -
  have "read_loop P (extractContent options) cb (\<lambda>n. ReadValue []) 0
          (started this_baseURL options cb) = None"
    using read_loop_needs_an_end[of P "extractContent options" cb "\<lambda>n. ReadValue []" 0]
    by (cases "read_loop P (extractContent options) cb (\<lambda>n. ReadValue []) 0
          (started this_baseURL options cb)") auto
  with assms show ?thesis by (simp add: stream_def Let_def)
qed

text \<open>The theorem at such a body.\<close>

theorem stream_never_settles_witness:
  "stream example_platform (ascii ''http://h'')
     (\<lambda>u m s. FetchResolves
        \<lparr>response_ok = True, response_status = 200,
           response_body = Some (\<lambda>n. ReadValue [])\<rparr>)
     \<lparr>stream_url = ascii ''/s'', stream_method = None, baseURL = None, signal = None,
        extractContent = None\<rparr>
     \<lparr>onMessage = True, onError = True, onComplete = True, onStart = True\<rparr>
   = None"
  using stream_never_settles
    [where P = example_platform and this_baseURL = "ascii ''http://h''"
       and fetch = "\<lambda>u m s. FetchResolves
        \<lparr>response_ok = True, response_status = 200,
           response_body = Some (\<lambda>n. ReadValue [])\<rparr>"
       and response = "\<lparr>response_ok = True, response_status = 200,
           response_body = Some (\<lambda>n. ReadValue [])\<rparr>"
       and options = "\<lparr>stream_url = ascii ''/s'', stream_method = None, baseURL = None,
                        signal = None, extractContent = None\<rparr>"
       and cb = "\<lparr>onMessage = True, onError = True, onComplete = True, onStart = True\<rparr>"]
  by simp

text \<open>
  A line of white space only is skipped: nothing is appended and no callback is invoked.
  A line that is not blank and does not start with \<open>data: \<close> is appended as it is and
  passed to \<open>onMessage\<close>.
\<close>

theorem line_without_prefix:
  "(trim line = [] \<longrightarrow> for_lines P extr cb (line # lines) st = for_lines P extr cb lines st)
   \<and> (trim line \<noteq> [] \<and> \<not> startsWith line (ascii ''data: '') \<longrightarrow>
        for_lines P extr cb (line # lines) st =
          for_lines P extr cb lines
            \<lparr>fullText = fullText st @ line,
               trace = trace st @ (if onMessage cb
                                   then [OnMessage (Text line) (fullText st @ line)] else [])\<rparr>)"
  by (simp add: append_content_record)

text \<open>The theorem at a line of a space and a tab, and at the line \<open> c\<close> after \<open>ab\<close>.\<close>

theorem line_without_prefix_witness:
  "for_lines example_platform None
     \<lparr>onMessage = True, onError = True, onComplete = True, onStart = True\<rparr>
     [[0x20, 0x09]] \<lparr>fullText = ascii ''ab'', trace = []\<rparr>
   = Continue \<lparr>fullText = ascii ''ab'', trace = []\<rparr>
   \<and> for_lines example_platform None
     \<lparr>onMessage = True, onError = True, onComplete = True, onStart = True\<rparr>
     [ascii '' c''] \<lparr>fullText = ascii ''ab'', trace = []\<rparr>
   = Continue \<lparr>fullText = ascii ''ab c'',
                trace = [OnMessage (Text (ascii '' c'')) (ascii ''ab c'')]\<rparr>"
  using
    line_without_prefix
      [where line = "[0x20, 0x09]" and P = example_platform and extr = None and lines = "[]"
         and cb = "\<lparr>onMessage = True, onError = True, onComplete = True, onStart = True\<rparr>"
         and st = "\<lparr>fullText = ascii ''ab'', trace = []\<rparr>", THEN conjunct1]
    line_without_prefix
      [where line = "ascii '' c''" and P = example_platform and extr = None and lines = "[]"
         and cb = "\<lparr>onMessage = True, onError = True, onComplete = True, onStart = True\<rparr>"
         and st = "\<lparr>fullText = ascii ''ab'', trace = []\<rparr>", THEN conjunct2]
  by (simp add: ascii_def trim_def isWhiteSpace_def startsWith_def del: for_lines.simps(2))

text \<open>
  The concatenation \<open>fullText += content\<close> is inside the \<open>try\<close>: when there is no
  \<open>extractContent\<close> and the parsed value is truthy but its conversion to a string throws,
  the \<open>catch\<close> appends the raw payload and passes it to \<open>onMessage\<close>.
\<close>

theorem conversion_throws_in_try:
  assumes "startsWith line (ascii ''data: '')"
    and "payload = trim (slice_js line 6)"
    and "payload \<noteq> ascii ''[DONE]''"
    and "JSON_parse P payload = Some parsed"
    and "ToBoolean P parsed"
    and "ToString P parsed = None"
  shows "for_lines P None cb (line # lines) st =
           for_lines P None cb lines
             \<lparr>fullText = fullText st @ payload,
                trace = trace st @ (if onMessage cb
                                    then [OnMessage (Text payload) (fullText st @ payload)]
                                    else [])\<rparr>"
proof -
  have "for_lines P None cb (line # lines) st
          = for_lines P None cb lines (try_json P None cb payload st)"
    using assms(1-3) data_line_not_blank[OF assms(1)] by (simp add: Let_def)
  then show ?thesis
    using assms(4-6) by (simp add: try_json_def append_content_record)
qed

text \<open>The theorem at the line \<^verbatim>\<open>data: {"toString":1}\<close> after \<open>ab\<close>.\<close>

theorem conversion_throws_in_try_witness:
  "for_lines example_platform None
     \<lparr>onMessage = True, onError = True, onComplete = True, onStart = True\<rparr>
     [ascii ''data: {\"toString\":1}''] \<lparr>fullText = ascii ''ab'', trace = []\<rparr>
   = Continue \<lparr>fullText = ascii ''ab{\"toString\":1}'',
                trace = [OnMessage (Text (ascii ''{\"toString\":1}''))
                           (ascii ''ab{\"toString\":1}'')]\<rparr>"
  using conversion_throws_in_try
    [where line = "ascii ''data: {\"toString\":1}''" and payload = "ascii ''{\"toString\":1}''"
       and P = example_platform and parsed = "JObject [(ascii ''toString'', JNumber 1)]"
       and cb = "\<lparr>onMessage = True, onError = True, onComplete = True, onStart = True\<rparr>"
       and lines = "[]" and st = "\<lparr>fullText = ascii ''ab'', trace = []\<rparr>"]
  by (simp add: ascii_def trim_def isWhiteSpace_def startsWith_def slice_js_def
      example_platform_def example_parse_def del: for_lines.simps(2))

end
